theory Spec2Isabelle
  imports Main
begin

section \<open>JavaScript values used by the scheduling code\<close>

text \<open>
  The scheduling code of the backend computes with minutes from midnight. A number is
  modelled as an integer or \<open>NaN\<close> (the result of parsing a malformed time string);
  comparisons with NaN are false and arithmetic with NaN is NaN, as in JavaScript.
\<close>

datatype jsnum = Num int | NaN

fun jsAdd :: "jsnum \<Rightarrow> jsnum \<Rightarrow> jsnum" where
  "jsAdd (Num a) (Num b) = Num (a + b)"
| "jsAdd _ _ = NaN"

fun jsSub :: "jsnum \<Rightarrow> jsnum \<Rightarrow> jsnum" where
  "jsSub (Num a) (Num b) = Num (a - b)"
| "jsSub _ _ = NaN"

fun jsMul :: "jsnum \<Rightarrow> jsnum \<Rightarrow> jsnum" where
  "jsMul (Num a) (Num b) = Num (a * b)"
| "jsMul _ _ = NaN"

fun jsLt :: "jsnum \<Rightarrow> jsnum \<Rightarrow> bool" where
  "jsLt (Num a) (Num b) = (a < b)"
| "jsLt _ _ = False"

fun jsLe :: "jsnum \<Rightarrow> jsnum \<Rightarrow> bool" where
  "jsLe (Num a) (Num b) = (a \<le> b)"
| "jsLe _ _ = False"

definition jsGt :: "jsnum \<Rightarrow> jsnum \<Rightarrow> bool" where
  "jsGt a b = jsLt b a"

definition jsGe :: "jsnum \<Rightarrow> jsnum \<Rightarrow> bool" where
  "jsGe a b = jsLe b a"

text \<open>\<open>Math.max\<close> and \<open>Math.min\<close>: NaN if either argument is NaN.\<close>

fun jsMax :: "jsnum \<Rightarrow> jsnum \<Rightarrow> jsnum" where
  "jsMax (Num a) (Num b) = Num (max a b)"
| "jsMax _ _ = NaN"

fun jsMin :: "jsnum \<Rightarrow> jsnum \<Rightarrow> jsnum" where
  "jsMin (Num a) (Num b) = Num (min a b)"
| "jsMin _ _ = NaN"

text \<open>
  Strings are lists of 8-bit characters. A string-valued field that may be absent
  (\<open>undefined\<close>, \<open>null\<close>) is a \<open>string option\<close>; it is truthy when it is present and
  not empty.
\<close>

fun truthy :: "string option \<Rightarrow> bool" where
  "truthy None = False"
| "truthy (Some s) = (s \<noteq> [])"

text \<open>\<open>x || ""\<close> on a string field.\<close>

fun orEmpty :: "string option \<Rightarrow> string" where
  "orEmpty None = []"
| "orEmpty (Some s) = s"

text \<open>
  The white space of \<open>String.prototype.trim\<close> and of the regular expression class
  \<open>\s\<close>, among the 8-bit characters: tab, line feed, vertical tab, form feed, carriage
  return, space and no-break space.
\<close>

definition isWhiteSpace :: "char \<Rightarrow> bool" where
  "isWhiteSpace c = (of_char c \<in> {9, 10, 11, 12, 13, 32, 160 :: nat})"

definition trim :: "string \<Rightarrow> string" where
  "trim s = rev (dropWhile isWhiteSpace (rev (dropWhile isWhiteSpace s)))"

text \<open>Case mapping, on the ASCII letters (other characters are left as they are).\<close>

definition toLowerChar :: "char \<Rightarrow> char" where
  "toLowerChar c =
     (if 65 \<le> (of_char c :: nat) \<and> (of_char c :: nat) \<le> 90
      then char_of (of_char c + 32 :: nat) else c)"

definition toUpperChar :: "char \<Rightarrow> char" where
  "toUpperChar c =
     (if 97 \<le> (of_char c :: nat) \<and> (of_char c :: nat) \<le> 122
      then char_of (of_char c - 32 :: nat) else c)"

definition toLowerCase :: "string \<Rightarrow> string" where
  "toLowerCase s = map toLowerChar s"

definition toUpperCase :: "string \<Rightarrow> string" where
  "toUpperCase s = map toUpperChar s"

text \<open>
  A value of the request body where the code expects a string: absent, \<open>null\<close>, a boolean,
  a number, a string, or an object or array. Of a number only its being zero matters here
  (\<open>0\<close> is falsy), so a number is an integer.
\<close>

datatype jsval = JUndefined | JNull | JBool bool | JNum int | JStr string | JObject

fun truthyVal :: "jsval \<Rightarrow> bool" where
  "truthyVal JUndefined = False"
| "truthyVal JNull = False"
| "truthyVal (JBool b) = b"
| "truthyVal (JNum n) = (n \<noteq> 0)"
| "truthyVal (JStr s) = (s \<noteq> [])"
| "truthyVal JObject = True"

section \<open>Errors\<close>

text \<open>
  The six errors \<open>validateBooking\<close> throws by name; the \<open>TypeError\<close> of the language,
  thrown where a method is called on a value that has none and where a field is read from
  \<open>null\<close>; the 400 answer of the availability route (\<open>date and postcode are required\<close>),
  which has no code of its own; and its 500 answer (\<open>Failed to calculate availability\<close>),
  given when anything is thrown inside the route.
\<close>

datatype error =
  MISSING_FIELDS
| OUTSIDE_WORKING_DAYS
| OUTSIDE_WORKING_HOURS
| OUT_OF_AREA_FOR_DAY
| TIME_TAKEN
| TRAVEL_TOO_FAR
| DATE_AND_POSTCODE_REQUIRED
| TypeError
| FAILED_TO_CALCULATE_AVAILABILITY

section \<open>Constants\<close>

definition WORK_START :: int where "WORK_START = 8 * 60 + 30"
definition WORK_END :: int where "WORK_END = 16 * 60 + 30"
definition TRAVEL_LIMIT_MIN :: int where "TRAVEL_LIMIT_MIN = 20"
definition BUFFER_AFTER_JOB_MIN :: int where "BUFFER_AFTER_JOB_MIN = 30"
definition SLOT_STEP_MIN :: int where "SLOT_STEP_MIN = 15"

section \<open>Service duration logic\<close>

text \<open>
  An element of the \<open>services\<close> array: \<open>null\<close>, or an object with the fields the code
  reads (an element that is a number, a string or a boolean has none of them: all three
  absent). \<open>serviceId\<close> and \<open>size\<close> hold any value; \<open>quantity\<close> is an integer or absent.
\<close>

record service =
  serviceId :: jsval
  size_opt :: jsval
  quantity :: "int option"

datatype item = NullItem | Item service

text \<open>
  \<open>(v || "").toLowerCase()\<close>: a falsy value is replaced by the empty string; a truthy
  value that is not a string has no method \<open>toLowerCase\<close>, and the call throws.
\<close>

definition lowerOrEmpty :: "jsval \<Rightarrow> error + string" where
  "lowerOrEmpty v =
     (if \<not> truthyVal v then Inr (toLowerCase [])
      else (case v of JStr s \<Rightarrow> Inr (toLowerCase s) | _ \<Rightarrow> Inl TypeError))"

text \<open>\<open>service.quantity || 1\<close>: an absent quantity and the quantity 0 are falsy.\<close>

definition quantityOr1 :: "service \<Rightarrow> int" where
  "quantityOr1 s = (case quantity s of None \<Rightarrow> 1 | Some q \<Rightarrow> if q = 0 then 1 else q)"

definition singleDurationOf :: "string \<Rightarrow> string \<Rightarrow> int" where
  "singleDurationOf ident sz =
     (if ident = ''basic_wash'' then 60
      else if ident = ''exterior_detailed'' then
        (if sz = ''small'' then 60
         else if sz = ''medium'' then 75
         else if sz = ''large'' then 90
         else 60)
      else if ident = ''full_detailed'' then
        (if sz = ''small'' then 75
         else if sz = ''medium'' then 95
         else if sz = ''large'' then 120
         else 75)
      else 60)"

text \<open>
  \<open>getServiceDurationMinutes\<close>: reading \<open>service.serviceId\<close> from \<open>null\<close> throws; then
  \<open>id\<close>, \<open>size\<close> and \<open>quantity\<close> are computed in this order, and the chain of tests gives
  \<open>singleDuration\<close>.
\<close>

definition getServiceDurationMinutes :: "item \<Rightarrow> error + int" where
  "getServiceDurationMinutes x =
     (case x of
        NullItem \<Rightarrow> Inl TypeError
      | Item s \<Rightarrow>
          (case lowerOrEmpty (serviceId s) of
             Inl err \<Rightarrow> Inl err
           | Inr ident \<Rightarrow>
               (case lowerOrEmpty (size_opt s) of
                  Inl err \<Rightarrow> Inl err
                | Inr sz \<Rightarrow>
                    (let q = quantityOr1 s;
                         singleDuration = singleDurationOf ident sz
                     in Inr (singleDuration * q)))))"

text \<open>
  The loop \<open>let total = 0; for (const s of services) total += getServiceDurationMinutes(s)\<close>,
  left at the first item that throws.
\<close>

fun totalDuration :: "int \<Rightarrow> item list \<Rightarrow> error + int" where
  "totalDuration subtotal [] = Inr subtotal"
| "totalDuration subtotal (s # rest) =
     (case getServiceDurationMinutes s of
        Inl err \<Rightarrow> Inl err
      | Inr d \<Rightarrow> totalDuration (subtotal + d) rest)"

text \<open>
  The argument is \<open>None\<close> when the value passed is not an array (absent, \<open>null\<close>, or of
  another type).
\<close>

definition estimateBookingDurationMinutes :: "item list option \<Rightarrow> error + int" where
  "estimateBookingDurationMinutes services =
     (case services of
        None \<Rightarrow> Inr 60
      | Some xs \<Rightarrow> if length xs = 0 then Inr 60 else totalDuration 0 xs)"

section \<open>Time strings\<close>

text \<open>
  \<open>String(n)\<close> for an integer: the decimal digits, with a minus sign for a negative one.
\<close>

definition digitChar :: "nat \<Rightarrow> char" where
  "digitChar d = char_of (48 + d)"

fun natToString :: "nat \<Rightarrow> string" where
  "natToString n =
     (if n < 10 then [digitChar n] else natToString (n div 10) @ [digitChar (n mod 10)])"

declare natToString.simps [simp del]

definition intToString :: "int \<Rightarrow> string" where
  "intToString i = (if i < 0 then CHR ''-'' # natToString (nat (- i)) else natToString (nat i))"

text \<open>\<open>s.padStart(2, "0")\<close>.\<close>

definition padStart2 :: "string \<Rightarrow> string" where
  "padStart2 s = (if length s < 2 then replicate (2 - length s) CHR ''0'' @ s else s)"

text \<open>
  The remainder operator \<open>%\<close> on integers with a positive divisor: the result has the sign
  of the dividend.
\<close>

definition jsRem :: "int \<Rightarrow> int \<Rightarrow> int" where
  "jsRem a b = (if a < 0 then - ((- a) mod b) else a mod b)"

text \<open>\<open>Math.floor(mins / 60)\<close> is \<open>mins div 60\<close>, which rounds down on the integers.\<close>

definition minutesToTimeString :: "int \<Rightarrow> string" where
  "minutesToTimeString mins =
     (let h = mins div 60; m = jsRem mins 60
      in padStart2 (intToString h) @ '':'' @ padStart2 (intToString m))"

text \<open>\<open>s.split(sep)\<close> for a one-character separator: never the empty list.\<close>

fun splitOn :: "char \<Rightarrow> string \<Rightarrow> string list" where
  "splitOn sep [] = [[]]"
| "splitOn sep (c # cs) =
     (if c = sep then [] # splitOn sep cs
      else (case splitOn sep cs of
              [] \<Rightarrow> [[c]]
            | p # ps \<Rightarrow> (c # p) # ps))"

definition isDigit :: "char \<Rightarrow> bool" where
  "isDigit c = (48 \<le> (of_char c :: nat) \<and> (of_char c :: nat) \<le> 57)"

definition digitsValue :: "string \<Rightarrow> nat" where
  "digitsValue s = foldl (\<lambda>a c. 10 * a + (of_char c - 48)) 0 s"

text \<open>
  \<open>Number(s)\<close>: white space around the string is dropped; what remains is 0 when it is
  empty, and its value when it is a string of decimal digits, with or without a sign before
  them. On every other string (a fraction, an exponent, a hexadecimal literal, \<open>Infinity\<close>,
  or no number at all) the value is left to the argument \<open>other\<close>, applied to the string
  without its surrounding white space.
\<close>

definition jsNumber :: "(string \<Rightarrow> jsnum) \<Rightarrow> string \<Rightarrow> jsnum" where
  "jsNumber other s =
     (case trim s of
        [] \<Rightarrow> Num 0
      | c # ds \<Rightarrow>
          if list_all isDigit (c # ds) then Num (int (digitsValue (c # ds)))
          else if c = CHR ''+'' \<and> ds \<noteq> [] \<and> list_all isDigit ds
          then Num (int (digitsValue ds))
          else if c = CHR ''-'' \<and> ds \<noteq> [] \<and> list_all isDigit ds
          then Num (- int (digitsValue ds))
          else other (c # ds))"

text \<open>
  \<open>const [h, m] = timeStr.split(":").map(Number); return h * 60 + m\<close>. Without a colon
  \<open>m\<close> is \<open>undefined\<close> and the sum is NaN.
\<close>

definition timeStringToMinutes :: "(string \<Rightarrow> jsnum) \<Rightarrow> string \<Rightarrow> jsnum" where
  "timeStringToMinutes other timeStr =
     (case map (jsNumber other) (splitOn CHR '':'' timeStr) of
        h # m # _ \<Rightarrow> jsAdd (jsMul h (Num 60)) m
      | _ \<Rightarrow> NaN)"

section \<open>The collaborators: booking store, calendar, travel-time provider\<close>

text \<open>
  A date \<open>YYYY-MM-DD\<close> is the number of its day, counted from 1970-01-01 (day 0, a
  Thursday). A row of the \<open>bookings\<close> table, with the columns the scheduling code reads;
  \<open>row_services\<close> is the parsed JSON column, \<open>None\<close> when the column is empty (the
  code then takes the empty list).
\<close>

record row =
  row_postcode :: "string option"
  row_preferred_date :: int
  row_preferred_time :: string
  row_services :: "item list option"

text \<open>
  A calendar event's \<open>start\<close> or \<open>end\<close>: a \<open>dateTime\<close> (day, hours and minutes in the
  server's local time) or an all-day \<open>date\<close>.
\<close>

datatype evtime = DateTime int int int | DateOnly int

record event =
  ev_start :: "evtime option"
  ev_end :: "evtime option"

text \<open>
  The answers of the collaborators, fixed for one request:
  \<^item> \<open>bookingsOn d\<close>: the pending and confirmed bookings of day \<open>d\<close>, ordered by time
    (the query of \<open>validateBooking\<close> and of the availability route);
  \<^item> \<open>bookingsBetween a b\<close>: the pending and confirmed bookings of the days from \<open>a\<close> to
    \<open>b\<close> (the query of the date-availability route);
  \<^item> \<open>googleAuth\<close>: whether calendar credentials were configured;
  \<^item> \<open>calendarEvents d\<close>: the events the calendar lists for day \<open>d\<close>, \<open>None\<close> when the
    call throws;
  \<^item> \<open>distanceMatrix origin destination\<close>: the driving time in seconds, \<open>None\<close> on an HTTP
    error, a response that is not OK, or an exception;
  \<^item> \<open>tzOffset\<close>: the server's local time minus UTC, in minutes, taken as constant
    during a request (a zone that changes its offset between two days of a range is not
    covered). It matters where the code prints a local date with \<open>toISOString\<close>;
  \<^item> \<open>numberOf\<close>: what \<open>Number\<close> returns on the strings that \<open>jsNumber\<close> leaves to it.
\<close>

record env =
  bookingsOn :: "int \<Rightarrow> row list"
  bookingsBetween :: "int \<Rightarrow> int \<Rightarrow> row list"
  googleAuth :: bool
  calendarEvents :: "int \<Rightarrow> event list option"
  distanceMatrix :: "string \<Rightarrow> string \<Rightarrow> int option"
  tzOffset :: int
  numberOf :: "string \<Rightarrow> jsnum"

text \<open>
  \<open>new Date(dateStr + "T00:00:00").getDay()\<close> is read in local time on both sides, so it
  is the weekday of the date: 0 is Sunday. Day 0 was a Thursday.
\<close>

definition getDay :: "int \<Rightarrow> int" where
  "getDay d = (d + 4) mod 7"

definition isWorkingDay :: "int \<Rightarrow> bool" where
  "isWorkingDay d = (let day = getDay d in day \<ge> 1 \<and> day \<le> 5)"

definition normalizePostcode :: "string option \<Rightarrow> string" where
  "normalizePostcode postcode =
     (if \<not> truthy postcode then []
      else filter (\<lambda>c. \<not> isWhiteSpace c) (toUpperCase (trim (orEmpty postcode))))"

text \<open>
  \<open>Math.round(seconds / 60)\<close> rounds halves up: \<open>(seconds + 30) div 60\<close>. Every failure
  gives 999.
\<close>

definition getTravelTimeMinutes :: "env \<Rightarrow> string option \<Rightarrow> string option \<Rightarrow> int" where
  "getTravelTimeMinutes e fromPostcode toPostcode =
     (if \<not> truthy fromPostcode \<or> \<not> truthy toPostcode then 999
      else (case distanceMatrix e (trim (orEmpty fromPostcode)) (trim (orEmpty toPostcode)) of
              None \<Rightarrow> 999
            | Some seconds \<Rightarrow> (seconds + 30) div 60))"

text \<open>
  \<open>getBusyIntervalsForDate\<close>: the minutes from midnight of each event's start and end. An
  event without a start or an end is skipped; an all-day start is 00:00 and an all-day end
  is 23:59. \<open>None\<close> when a calendar call throws.
\<close>

fun startMinutes :: "evtime \<Rightarrow> int" where
  "startMinutes (DateTime d h m) = h * 60 + m"
| "startMinutes (DateOnly d) = 0 * 60 + 0"

fun endMinutes :: "evtime \<Rightarrow> int" where
  "endMinutes (DateTime d h m) = h * 60 + m"
| "endMinutes (DateOnly d) = 23 * 60 + 59"

fun busyOfEvents :: "event list \<Rightarrow> (int \<times> int) list" where
  "busyOfEvents [] = []"
| "busyOfEvents (ev # evs) =
     (case (ev_start ev, ev_end ev) of
        (Some s, Some t) \<Rightarrow> (startMinutes s, endMinutes t) # busyOfEvents evs
      | _ \<Rightarrow> busyOfEvents evs)"

definition getBusyIntervalsForDate :: "env \<Rightarrow> int \<Rightarrow> (int \<times> int) list option" where
  "getBusyIntervalsForDate e d =
     (if \<not> googleAuth e then Some []
      else (case calendarEvents e d of None \<Rightarrow> None | Some evs \<Rightarrow> Some (busyOfEvents evs)))"

section \<open>Intervals of a day\<close>

record interval =
  iv_start :: jsnum
  iv_end :: jsnum
  iv_postcode :: "string option"

text \<open>
  The interval list of \<open>validateBooking\<close> and of the availability route (the same code in
  both): one interval per booking row, then one per calendar block. The estimate of a row's
  services may throw, and the build is left there.
\<close>

definition bookingInterval :: "env \<Rightarrow> row \<Rightarrow> error + interval" where
  "bookingInterval e r =
     (let svc = (case row_services r of None \<Rightarrow> [] | Some xs \<Rightarrow> xs)
      in (case estimateBookingDurationMinutes (Some svc) of
            Inl err \<Rightarrow> Inl err
          | Inr base \<Rightarrow>
              (let dur = base + BUFFER_AFTER_JOB_MIN;
                   start = timeStringToMinutes (numberOf e) (row_preferred_time r);
                   end' = jsAdd start (Num dur)
               in Inr \<lparr>iv_start = start, iv_end = end', iv_postcode = row_postcode r\<rparr>)))"

fun bookingIntervalsLoop :: "env \<Rightarrow> row list \<Rightarrow> error + interval list" where
  "bookingIntervalsLoop e [] = Inr []"
| "bookingIntervalsLoop e (r # rows) =
     (case bookingInterval e r of
        Inl err \<Rightarrow> Inl err
      | Inr i \<Rightarrow>
          (case bookingIntervalsLoop e rows of
             Inl err \<Rightarrow> Inl err
           | Inr rest \<Rightarrow> Inr (i # rest)))"

definition calendarInterval :: "int \<times> int \<Rightarrow> interval" where
  "calendarInterval c = \<lparr>iv_start = Num (fst c), iv_end = Num (snd c), iv_postcode = None\<rparr>"

definition buildIntervals :: "env \<Rightarrow> row list \<Rightarrow> (int \<times> int) list \<Rightarrow> error + interval list" where
  "buildIntervals e rows calendarBusy =
     (case bookingIntervalsLoop e rows of
        Inl err \<Rightarrow> Inl err
      | Inr fromRows \<Rightarrow> Inr (fromRows @ map calendarInterval calendarBusy))"

text \<open>The overlap loop: stops at the first interval that intersects \<open>[s, e)\<close>.\<close>

fun overlapsAny :: "jsnum \<Rightarrow> jsnum \<Rightarrow> interval list \<Rightarrow> bool" where
  "overlapsAny s e [] = False"
| "overlapsAny s e (i # rest) =
     (let latestStart = jsMax s (iv_start i);
          earliestEnd = jsMin e (iv_end i)
      in if jsLt latestStart earliestEnd then True else overlapsAny s e rest)"

text \<open>
  \<open>Array.prototype.sort\<close> with a comparator is stable; insertion from the right computes
  the stable order. A comparator result that is NaN counts as 0.
\<close>

fun insertSorted :: "('a \<Rightarrow> 'a \<Rightarrow> jsnum) \<Rightarrow> 'a \<Rightarrow> 'a list \<Rightarrow> 'a list" where
  "insertSorted cmp x [] = [x]"
| "insertSorted cmp x (y # ys) =
     (if jsGt (cmp x y) (Num 0) then y # insertSorted cmp x ys else x # y # ys)"

definition jsSort :: "('a \<Rightarrow> 'a \<Rightarrow> jsnum) \<Rightarrow> 'a list \<Rightarrow> 'a list" where
  "jsSort cmp xs = foldr (insertSorted cmp) xs []"

text \<open>\<open>xs[0]\<close>, which is \<open>undefined\<close> on the empty array.\<close>

definition first :: "'a list \<Rightarrow> 'a option" where
  "first xs = (case xs of [] \<Rightarrow> None | x # _ \<Rightarrow> Some x)"

definition bookingIntervalsOf :: "interval list \<Rightarrow> interval list" where
  "bookingIntervalsOf intervals = filter (\<lambda>i. truthy (iv_postcode i)) intervals"

definition prevOf :: "interval list \<Rightarrow> jsnum \<Rightarrow> interval option" where
  "prevOf bookingIntervals requestedStart =
     first (jsSort (\<lambda>a b. jsSub (iv_end b) (iv_end a))
              (filter (\<lambda>i. jsLe (iv_end i) requestedStart) bookingIntervals))"

definition nextOf :: "interval list \<Rightarrow> jsnum \<Rightarrow> interval option" where
  "nextOf bookingIntervals requestedEnd =
     first (jsSort (\<lambda>a b. jsSub (iv_start a) (iv_start b))
              (filter (\<lambda>i. jsGe (iv_start i) requestedEnd) bookingIntervals))"

section \<open>The area gate\<close>

text \<open>
  The loop \<open>let allFar = true; for (const row of rows) { ...; if (travel <= TRAVEL_LIMIT_MIN)
  { allFar = false; break; } }\<close>, which the three routes share. It returns \<open>allFar\<close> and
  the travel-time queries it made, in order.
\<close>

fun allFarLoop :: "env \<Rightarrow> string option \<Rightarrow> row list \<Rightarrow> bool \<times> (string option \<times> string option) list" where
  "allFarLoop e postcode [] = (True, [])"
| "allFarLoop e postcode (r # rows) =
     (let travel = getTravelTimeMinutes e postcode (row_postcode r)
      in if travel \<le> TRAVEL_LIMIT_MIN then (False, [(postcode, row_postcode r)])
         else (let (allFar, queries) = allFarLoop e postcode rows
               in (allFar, (postcode, row_postcode r) # queries)))"

definition outOfAreaForDay :: "env \<Rightarrow> string option \<Rightarrow> row list \<Rightarrow> bool" where
  "outOfAreaForDay e postcode rows = (length rows > 0 \<and> fst (allFarLoop e postcode rows))"

section \<open>Core validation logic\<close>

text \<open>
  \<open>validateBooking({ date, postcode, services, preferred_time })\<close>: \<open>Inl\<close> the error thrown,
  \<open>Inr ()\<close> when it returns. A failing calendar call leaves \<open>calendarBusy\<close> empty. A
  \<open>TypeError\<close> of the duration estimate, for the services requested or for those of a
  stored booking, leaves the function as it is thrown.
\<close>

definition validateBooking ::
  "env \<Rightarrow> int option \<Rightarrow> string option \<Rightarrow> item list option \<Rightarrow> string option \<Rightarrow> error + unit" where
  "validateBooking e date postcode services preferred_time =
     (case date of
        None \<Rightarrow> Inl MISSING_FIELDS
      | Some d \<Rightarrow>
          if \<not> truthy postcode \<or> \<not> truthy preferred_time then Inl MISSING_FIELDS
          else if \<not> isWorkingDay d then Inl OUTSIDE_WORKING_DAYS
          else
            (let servicesArray = (case services of None \<Rightarrow> [] | Some xs \<Rightarrow> xs) in
              (case estimateBookingDurationMinutes (Some servicesArray) of
                 Inl err \<Rightarrow> Inl err
               | Inr baseDuration \<Rightarrow>
                  (let requestedDuration = baseDuration + BUFFER_AFTER_JOB_MIN;
                       requestedStart = timeStringToMinutes (numberOf e) (orEmpty preferred_time);
                       requestedEnd = jsAdd requestedStart (Num requestedDuration)
                   in
                     if jsLt requestedStart (Num WORK_START) \<or> jsGt requestedEnd (Num WORK_END)
                     then Inl OUTSIDE_WORKING_HOURS
                     else
                       (let rows = bookingsOn e d;
                            calendarBusy =
                              (case getBusyIntervalsForDate e d of None \<Rightarrow> [] | Some b \<Rightarrow> b)
                        in
                          if outOfAreaForDay e postcode rows then Inl OUT_OF_AREA_FOR_DAY
                          else
                            (case buildIntervals e rows calendarBusy of
                               Inl err \<Rightarrow> Inl err
                             | Inr intervals \<Rightarrow>
                                 if overlapsAny requestedStart requestedEnd intervals
                                 then Inl TIME_TAKEN
                                 else
                                   (let bookingIntervals = bookingIntervalsOf intervals;
                                        prev = prevOf bookingIntervals requestedStart;
                                        next = nextOf bookingIntervals requestedEnd
                                    in
                                      if (case prev of
                                            None \<Rightarrow> False
                                          | Some p \<Rightarrow>
                                              getTravelTimeMinutes e (iv_postcode p) postcode
                                                > TRAVEL_LIMIT_MIN)
                                      then Inl TRAVEL_TOO_FAR
                                      else if (case next of
                                            None \<Rightarrow> False
                                          | Some n \<Rightarrow>
                                              getTravelTimeMinutes e postcode (iv_postcode n)
                                                > TRAVEL_LIMIT_MIN)
                                      then Inl TRAVEL_TOO_FAR
                                      else Inr ())))))))"

section \<open>Time-slot availability for a date\<close>

text \<open>The travel check of one candidate in the availability route: the flag \<open>travelOk\<close>.\<close>

definition travelOkFor :: "env \<Rightarrow> string option \<Rightarrow> interval list \<Rightarrow> int \<Rightarrow> int \<Rightarrow> bool" where
  "travelOkFor e postcode intervals candidateStart candidateEnd =
     (let travelOk = True;
          bookingIntervals = bookingIntervalsOf intervals;
          prev = prevOf bookingIntervals (Num candidateStart);
          next = nextOf bookingIntervals (Num candidateEnd);
          travelOk = (case prev of
                        None \<Rightarrow> travelOk
                      | Some p \<Rightarrow>
                          if getTravelTimeMinutes e (iv_postcode p) postcode > TRAVEL_LIMIT_MIN
                          then False else travelOk);
          travelOk = (case next of
                        None \<Rightarrow> travelOk
                      | Some n \<Rightarrow>
                          if travelOk then
                            (if getTravelTimeMinutes e postcode (iv_postcode n) > TRAVEL_LIMIT_MIN
                             then False else travelOk)
                          else travelOk)
      in travelOk)"

text \<open>
  The grid loop \<open>for (let candidateStart = WORK_START; candidateStart + requestedDuration <=
  WORK_END; candidateStart += SLOT_STEP_MIN)\<close>, returning the slots pushed from
  \<open>candidateStart\<close> on.
\<close>

function slotLoop :: "env \<Rightarrow> string option \<Rightarrow> interval list \<Rightarrow> int \<Rightarrow> int \<Rightarrow> string list" where
  "slotLoop e postcode intervals requestedDuration candidateStart =
     (if candidateStart + requestedDuration \<le> WORK_END then
        (let candidateEnd = candidateStart + requestedDuration in
           if overlapsAny (Num candidateStart) (Num candidateEnd) intervals
           then slotLoop e postcode intervals requestedDuration (candidateStart + SLOT_STEP_MIN)
           else if \<not> travelOkFor e postcode intervals candidateStart candidateEnd
           then slotLoop e postcode intervals requestedDuration (candidateStart + SLOT_STEP_MIN)
           else minutesToTimeString candidateStart
                  # slotLoop e postcode intervals requestedDuration (candidateStart + SLOT_STEP_MIN))
      else [])"
  by pat_completeness auto
termination
  by (relation "measure (\<lambda>(e, postcode, intervals, requestedDuration, candidateStart).
        nat (WORK_END + SLOT_STEP_MIN - requestedDuration - candidateStart))")
     (auto simp: SLOT_STEP_MIN_def)

declare slotLoop.simps [simp del]

text \<open>
  The route \<open>POST /api/availability\<close>: \<open>Inl\<close> the 400 or the 500 answer, \<open>Inr\<close> the
  \<open>slots\<close> of the answer. The body runs inside \<open>try\<close>: whatever is thrown gives the 500
  answer.
\<close>

definition findSlots ::
  "env \<Rightarrow> int option \<Rightarrow> string option \<Rightarrow> item list option \<Rightarrow> error + string list" where
  "findSlots e date postcode services =
     (case date of
        None \<Rightarrow> Inl DATE_AND_POSTCODE_REQUIRED
      | Some d \<Rightarrow>
          if \<not> truthy postcode then Inl DATE_AND_POSTCODE_REQUIRED
          else if \<not> isWorkingDay d then Inr []
          else
            (let servicesArray = (case services of None \<Rightarrow> [] | Some xs \<Rightarrow> xs) in
              (case estimateBookingDurationMinutes (Some servicesArray) of
                 Inl err \<Rightarrow> Inl FAILED_TO_CALCULATE_AVAILABILITY
               | Inr baseDuration \<Rightarrow>
                  (let requestedDuration = baseDuration + BUFFER_AFTER_JOB_MIN;
                       rows = bookingsOn e d
                   in
                     if outOfAreaForDay e postcode rows then Inr []
                     else
                       (let calendarBusy =
                              (case getBusyIntervalsForDate e d of None \<Rightarrow> [] | Some b \<Rightarrow> b)
                        in (case buildIntervals e rows calendarBusy of
                              Inl err \<Rightarrow> Inl FAILED_TO_CALCULATE_AVAILABILITY
                            | Inr intervals \<Rightarrow>
                                Inr (slotLoop e postcode intervals requestedDuration
                                       WORK_START)))))))"

section \<open>Date-level availability for a postcode\<close>

record dayAreaResult =
  da_date :: int
  in_area :: bool

record dateAvailability =
  ra_postcode :: string
  ra_start_date :: int
  ra_end_date :: int
  ra_dates :: "dayAreaResult list"

text \<open>
  The loop variable \<open>d\<close> is local midnight of a day; \<open>d.toISOString().slice(0, 10)\<close> is the
  date of that instant in UTC. With minutes counted from 1970-01-01T00:00 UTC, local
  midnight of day \<open>d\<close> is the instant \<open>d * 1440 - tzOffset\<close>.
\<close>

definition toISODate :: "env \<Rightarrow> int \<Rightarrow> int" where
  "toISODate e d = (d * 1440 - tzOffset e) div 1440"

function dayLoop :: "env \<Rightarrow> string \<Rightarrow> row list \<Rightarrow> int \<Rightarrow> int \<Rightarrow> dayAreaResult list" where
  "dayLoop e normPostcode rows endDay d =
     (if d \<le> endDay then
        (let dStr = toISODate e d;
             bookingsForDay = filter (\<lambda>r. row_preferred_date r = dStr) rows;
             inArea =
               (if \<not> isWorkingDay dStr then False
                else if length bookingsForDay > 0
                then \<not> fst (allFarLoop e (Some normPostcode) bookingsForDay)
                else True)
         in \<lparr>da_date = dStr, in_area = inArea\<rparr> # dayLoop e normPostcode rows endDay (d + 1))
      else [])"
  by pat_completeness auto
termination
  by (relation "measure (\<lambda>(e, normPostcode, rows, endDay, d). nat (endDay + 1 - d))") auto

declare dayLoop.simps [simp del]

definition rangeAvailability ::
  "env \<Rightarrow> string option \<Rightarrow> int option \<Rightarrow> int option \<Rightarrow> error + dateAvailability" where
  "rangeAvailability e postcode start_date end_date =
     (case (start_date, end_date) of
        (Some startDay, Some endDay) \<Rightarrow>
          if \<not> truthy postcode then Inl MISSING_FIELDS
          else
            let normPostcode = normalizePostcode postcode;
                rows = bookingsBetween e startDay endDay
            in Inr \<lparr>ra_postcode = normPostcode, ra_start_date = startDay, ra_end_date = endDay,
                    ra_dates = dayLoop e normPostcode rows endDay startDay\<rparr>
      | _ \<Rightarrow> Inl MISSING_FIELDS)"

section \<open>Names for what the routes compute\<close>

text \<open>
  Names to state the theorems: \<open>requestedDuration\<close> is the duration a request occupies, as
  both routes compute it (the estimate plus the buffer, or the error thrown);
  \<open>calendarBusyOf\<close> is \<open>calendarBusy\<close> in both routes; \<open>requestedDurationOf\<close> and
  \<open>dayIntervals\<close> are the duration and the interval list of the day where nothing is
  thrown (0 and the empty list otherwise).
\<close>

definition requestedDuration :: "item list option \<Rightarrow> error + int" where
  "requestedDuration services =
     (case estimateBookingDurationMinutes (Some (case services of None \<Rightarrow> [] | Some xs \<Rightarrow> xs)) of
        Inl err \<Rightarrow> Inl err
      | Inr baseDuration \<Rightarrow> Inr (baseDuration + BUFFER_AFTER_JOB_MIN))"

definition requestedDurationOf :: "item list option \<Rightarrow> int" where
  "requestedDurationOf services =
     (case requestedDuration services of Inl err \<Rightarrow> 0 | Inr dur \<Rightarrow> dur)"

definition calendarBusyOf :: "env \<Rightarrow> int \<Rightarrow> (int \<times> int) list" where
  "calendarBusyOf e d = (case getBusyIntervalsForDate e d of None \<Rightarrow> [] | Some b \<Rightarrow> b)"

definition dayIntervals :: "env \<Rightarrow> int \<Rightarrow> interval list" where
  "dayIntervals e d =
     (case buildIntervals e (bookingsOn e d) (calendarBusyOf e d) of
        Inl err \<Rightarrow> []
      | Inr intervals \<Rightarrow> intervals)"

text \<open>The two travel tests of a candidate \<open>[s, t)\<close>.\<close>

definition prevTooFar :: "env \<Rightarrow> string option \<Rightarrow> interval list \<Rightarrow> jsnum \<Rightarrow> bool" where
  "prevTooFar e postcode intervals s =
     (case prevOf (bookingIntervalsOf intervals) s of
        None \<Rightarrow> False
      | Some p \<Rightarrow> getTravelTimeMinutes e (iv_postcode p) postcode > TRAVEL_LIMIT_MIN)"

definition nextTooFar :: "env \<Rightarrow> string option \<Rightarrow> interval list \<Rightarrow> jsnum \<Rightarrow> bool" where
  "nextTooFar e postcode intervals t =
     (case nextOf (bookingIntervalsOf intervals) t of
        None \<Rightarrow> False
      | Some n \<Rightarrow> getTravelTimeMinutes e postcode (iv_postcode n) > TRAVEL_LIMIT_MIN)"



section \<open>Concrete inputs\<close>

text \<open>
  An item with an unknown service and an unknown size, twice; and an item whose \<open>serviceId\<close>
  is the number 123.
\<close>

definition waxItem :: item where
  "waxItem = Item \<lparr>serviceId = JStr ''Wax'', size_opt = JStr ''huge'', quantity = Some 2\<rparr>"

definition numericIdItem :: item where
  "numericIdItem = Item \<lparr>serviceId = JNum 123, size_opt = JUndefined, quantity = None\<rparr>"

text \<open>
  The scenario of the specification: Monday 2024-06-03 is day 19877; one booking that day at
  09:00 for one basic wash (60 minutes) at AB1; no calendar; every driving time 0; the server
  on UTC.
\<close>

definition wash60 :: item where
  "wash60 = Item \<lparr>serviceId = JStr ''basic_wash'', size_opt = JUndefined, quantity = Some 1\<rparr>"

definition row0900 :: row where
  "row0900 = \<lparr>row_postcode = Some ''AB1'', row_preferred_date = 19877,
               row_preferred_time = ''09:00'', row_services = Some [wash60]\<rparr>"

definition scenarioEnv :: env where
  "scenarioEnv =
     \<lparr>bookingsOn = (\<lambda>d. if d = 19877 then [row0900] else []),
      bookingsBetween = (\<lambda>a b. if a \<le> 19877 \<and> 19877 \<le> b then [row0900] else []),
      googleAuth = False,
      calendarEvents = (\<lambda>d. Some []),
      distanceMatrix = (\<lambda>origin destination. Some 0),
      tzOffset = 0,
      numberOf = (\<lambda>s. NaN)\<rparr>"




definition nightEnv :: env where
  "nightEnv =
     \<lparr>bookingsOn = (\<lambda>d. []),
      bookingsBetween = (\<lambda>a b. []),
      googleAuth = True,
      calendarEvents = (\<lambda>d. Some [\<lparr>ev_start = Some (DateTime 19876 22 0),
                                     ev_end = Some (DateTime 19877 11 0)\<rparr>]),
      distanceMatrix = (\<lambda>origin destination. Some 0),
      tzOffset = 0,
      numberOf = (\<lambda>s. NaN)\<rparr>"

text \<open>
  The scenario on a server whose local time is one hour ahead of UTC (British Summer Time),
  and the scenario with a provider that knows the postcode AB1 in capitals only.
\<close>

definition summerTimeEnv :: env where
  "summerTimeEnv =
     \<lparr>bookingsOn = (\<lambda>d. if d = 19877 then [row0900] else []),
      bookingsBetween = (\<lambda>a b. if a \<le> 19877 \<and> 19877 \<le> b then [row0900] else []),
      googleAuth = False,
      calendarEvents = (\<lambda>d. Some []),
      distanceMatrix = (\<lambda>origin destination. Some 0),
      tzOffset = 60,
      numberOf = (\<lambda>s. NaN)\<rparr>"

definition capitalsEnv :: env where
  "capitalsEnv =
     \<lparr>bookingsOn = (\<lambda>d. if d = 19877 then [row0900] else []),
      bookingsBetween = (\<lambda>a b. if a \<le> 19877 \<and> 19877 \<le> b then [row0900] else []),
      googleAuth = False,
      calendarEvents = (\<lambda>d. Some []),
      distanceMatrix = (\<lambda>origin destination.
         if origin = ''AB1'' \<and> destination = ''AB1'' then Some 0 else None),
      tzOffset = 0,
      numberOf = (\<lambda>s. NaN)\<rparr>"


text \<open>The scenario with the stored time followed by a space.\<close>

definition row0900padded :: row where
  "row0900padded = \<lparr>row_postcode = Some ''AB1'', row_preferred_date = 19877,
                     row_preferred_time = ''09:00 '', row_services = Some [wash60]\<rparr>"

definition paddedEnv :: env where
  "paddedEnv =
     \<lparr>bookingsOn = (\<lambda>d. if d = 19877 then [row0900padded] else []),
      bookingsBetween = (\<lambda>a b. if a \<le> 19877 \<and> 19877 \<le> b then [row0900padded] else []),
      googleAuth = False,
      calendarEvents = (\<lambda>d. Some []),
      distanceMatrix = (\<lambda>origin destination. Some 0),
      tzOffset = 0,
      numberOf = (\<lambda>s. NaN)\<rparr>"

section \<open>Where the duration estimate throws\<close>


lemma lowerOrEmpty_string:
  "lowerOrEmpty (JStr s) = Inr (toLowerCase s)"
  by (simp add: lowerOrEmpty_def toLowerCase_def)

lemma lowerOrEmpty_falsy:
  "\<not> truthyVal v \<Longrightarrow> lowerOrEmpty v = Inr []"
  by (simp add: lowerOrEmpty_def toLowerCase_def)




text \<open>
  The defaults and the fallbacks of the estimate: 60 minutes for an absent or empty list;
  for an item whose \<open>serviceId\<close> and \<open>size\<close> are strings or falsy, the single duration of
  the table times the quantity, with 60 for an unknown \<open>serviceId\<close> and the smallest size
  of the service for an unknown \<open>size\<close>.
\<close>

lemma estimate_default_and_fallback:
  "estimateBookingDurationMinutes None = Inr 60 \<and>
   estimateBookingDurationMinutes (Some []) = Inr 60 \<and>
   (lowerOrEmpty (serviceId s) = Inr ident \<and> lowerOrEmpty (size_opt s) = Inr sz \<longrightarrow>
      getServiceDurationMinutes (Item s) = Inr (singleDurationOf ident sz * quantityOr1 s)) \<and>
   singleDurationOf ident sz \<in> {60, 75, 90, 95, 120} \<and>
   (ident \<notin> {''basic_wash'', ''exterior_detailed'', ''full_detailed''} \<longrightarrow>
      singleDurationOf ident sz = 60) \<and>
   (sz \<notin> {''small'', ''medium'', ''large''} \<longrightarrow>
      singleDurationOf ident sz = (if ident = ''full_detailed'' then 75 else 60))"
  by (simp add: estimateBookingDurationMinutes_def getServiceDurationMinutes_def Let_def
        singleDurationOf_def)

section \<open>Time strings: the round trip\<close>









lemma dropWhile_none: "\<forall>c \<in> set s. \<not> P c \<Longrightarrow> dropWhile P s = s"
  by (cases s) simp_all

lemma trim_no_space: "\<forall>c \<in> set s. \<not> isWhiteSpace c \<Longrightarrow> trim s = s"
  by (simp add: trim_def dropWhile_none)








lemma splitOn_nonempty: "splitOn sep s \<noteq> []"
  by (induction s) (auto split: list.splits)






text \<open>A time with white space around it, or with a sign, reads as the code reads it.\<close>

lemma timeStringToMinutes_examples:
  "timeStringToMinutes other ''09:00 '' = Num 540 \<and>
   timeStringToMinutes other '' 9:05'' = Num 545 \<and>
   timeStringToMinutes other ''+9:30'' = Num 570 \<and>
   timeStringToMinutes other ''-1:30'' = Num (- 30) \<and>
   timeStringToMinutes other '':'' = Num 0 \<and>
   timeStringToMinutes other ''0900'' = NaN"
  by (simp add: timeStringToMinutes_def jsNumber_def trim_def isWhiteSpace_def isDigit_def
        digitsValue_def)


section \<open>The grid loop and the steps of the routes\<close>


lemma slotLoop_complete:
  "c0 + 15 * int k + dur \<le> WORK_END \<Longrightarrow>
   \<not> overlapsAny (Num (c0 + 15 * int k)) (Num (c0 + 15 * int k + dur)) ivs \<Longrightarrow>
   travelOkFor e pc ivs (c0 + 15 * int k) (c0 + 15 * int k + dur) \<Longrightarrow>
   minutesToTimeString (c0 + 15 * int k) \<in> set (slotLoop e pc ivs dur c0)"
proof (induction k arbitrary: c0)
  case 0
  then show ?case by (subst slotLoop.simps) (simp add: Let_def)
next
  case (Suc k)
  have eq: "c0 + 15 * int (Suc k) = (c0 + SLOT_STEP_MIN) + 15 * int k"
    by (simp add: SLOT_STEP_MIN_def)
  from Suc.prems have tail:
    "minutesToTimeString (c0 + 15 * int (Suc k)) \<in> set (slotLoop e pc ivs dur (c0 + SLOT_STEP_MIN))"
    unfolding eq by (rule Suc.IH)
  from Suc.prems(1) have "c0 + dur \<le> WORK_END" by simp
  with tail show ?case by (subst slotLoop.simps) (simp add: Let_def)
qed

lemma travelOkFor_iff:
  "travelOkFor e pc ivs cs ce \<longleftrightarrow>
     \<not> prevTooFar e pc ivs (Num cs) \<and> \<not> nextTooFar e pc ivs (Num ce)"
  by (auto simp: travelOkFor_def prevTooFar_def nextTooFar_def Let_def split: option.splits)

lemma validateBooking_steps:
  "validateBooking e (Some d) pc svcs t =
     (if \<not> truthy pc \<or> \<not> truthy t then Inl MISSING_FIELDS
      else if \<not> isWorkingDay d then Inl OUTSIDE_WORKING_DAYS
      else (case requestedDuration svcs of
              Inl err \<Rightarrow> Inl err
            | Inr dur \<Rightarrow>
                (let rs = timeStringToMinutes (numberOf e) (orEmpty t);
                     re = jsAdd rs (Num dur)
                 in if jsLt rs (Num WORK_START) \<or> jsGt re (Num WORK_END)
                    then Inl OUTSIDE_WORKING_HOURS
                    else if outOfAreaForDay e pc (bookingsOn e d) then Inl OUT_OF_AREA_FOR_DAY
                    else (case buildIntervals e (bookingsOn e d) (calendarBusyOf e d) of
                            Inl err \<Rightarrow> Inl err
                          | Inr ivs \<Rightarrow>
                              if overlapsAny rs re ivs then Inl TIME_TAKEN
                              else if prevTooFar e pc ivs rs then Inl TRAVEL_TOO_FAR
                              else if nextTooFar e pc ivs re then Inl TRAVEL_TOO_FAR
                              else Inr ()))))"
  by (simp add: validateBooking_def Let_def requestedDuration_def calendarBusyOf_def
        prevTooFar_def nextTooFar_def split: sum.splits)

lemma validateBooking_no_date:
  "validateBooking e None pc svcs t = Inl MISSING_FIELDS"
  by (simp add: validateBooking_def)

lemma findSlots_steps:
  "findSlots e (Some d) pc svcs =
     (if \<not> truthy pc then Inl DATE_AND_POSTCODE_REQUIRED
      else if \<not> isWorkingDay d then Inr []
      else (case requestedDuration svcs of
              Inl err \<Rightarrow> Inl FAILED_TO_CALCULATE_AVAILABILITY
            | Inr dur \<Rightarrow>
                if outOfAreaForDay e pc (bookingsOn e d) then Inr []
                else (case buildIntervals e (bookingsOn e d) (calendarBusyOf e d) of
                        Inl err \<Rightarrow> Inl FAILED_TO_CALCULATE_AVAILABILITY
                      | Inr ivs \<Rightarrow> Inr (slotLoop e pc ivs dur WORK_START))))"
  by (simp add: findSlots_def Let_def requestedDuration_def calendarBusyOf_def
        split: sum.splits)


text \<open>Where nothing is thrown, the named duration and interval list are the routes' own.\<close>

lemma requestedDurationOf_eq: "requestedDuration svcs = Inr dur \<Longrightarrow> requestedDurationOf svcs = dur"
  by (simp add: requestedDurationOf_def)

lemma dayIntervals_eq:
  "buildIntervals e (bookingsOn e d) (calendarBusyOf e d) = Inr ivs \<Longrightarrow> dayIntervals e d = ivs"
  by (simp add: dayIntervals_def)


section \<open>The area gate and the travel time\<close>




section \<open>The checks of the two routes, one by one\<close>











text \<open>And every candidate of the grid that fits and passes them is a slot.\<close>

lemma findSlots_lists:
  assumes "truthy pc" and "isWorkingDay d" and "requestedDuration svcs = Inr dur"
    and "\<not> outOfAreaForDay e pc (bookingsOn e d)"
    and "buildIntervals e (bookingsOn e d) (calendarBusyOf e d) = Inr ivs"
    and "WORK_START + 15 * int k + dur \<le> WORK_END"
    and "\<not> overlapsAny (Num (WORK_START + 15 * int k)) (Num (WORK_START + 15 * int k + dur)) ivs"
    and "\<not> prevTooFar e pc ivs (Num (WORK_START + 15 * int k))"
    and "\<not> nextTooFar e pc ivs (Num (WORK_START + 15 * int k + dur))"
  shows "\<exists>slots. findSlots e (Some d) pc svcs = Inr slots \<and>
           minutesToTimeString (WORK_START + 15 * int k) \<in> set slots"
proof -
  from assms(8,9) have "travelOkFor e pc ivs (WORK_START + 15 * int k) (WORK_START + 15 * int k + dur)"
    by (simp add: travelOkFor_iff)
  from slotLoop_complete[OF assms(6,7) this] assms(1-5) show ?thesis
    by (simp add: findSlots_steps)
qed

section \<open>The occupancy test\<close>




lemma bookingIntervalsLoop_length:
  "bookingIntervalsLoop e rows = Inr ivs \<Longrightarrow> length ivs = length rows"
  by (induction rows arbitrary: ivs) (auto split: sum.splits)


section \<open>The day loop of the date-availability route\<close>

lemma dayLoop_unfold:
  "dayLoop e np rows endDay d =
     (if d \<le> endDay then
        \<lparr>da_date = toISODate e d,
         in_area = (isWorkingDay (toISODate e d) \<and>
                    \<not> outOfAreaForDay e (Some np)
                        (filter (\<lambda>r. row_preferred_date r = toISODate e d) rows))\<rparr>
        # dayLoop e np rows endDay (d + 1)
      else [])"
  by (subst dayLoop.simps) (simp add: Let_def outOfAreaForDay_def)

lemma dayLoop_map:
  "dayLoop e np rows endDay d =
     map (\<lambda>k. \<lparr>da_date = toISODate e k,
                in_area = (isWorkingDay (toISODate e k) \<and>
                           \<not> outOfAreaForDay e (Some np)
                               (filter (\<lambda>r. row_preferred_date r = toISODate e k) rows))\<rparr>)
       [d..endDay]"
proof (induction e np rows endDay d rule: dayLoop.induct)
  case (1 e np rows endDay d)
  show ?case
  proof (cases "d \<le> endDay")
    case True
    then have up: "[d..endDay] = d # [d + 1..endDay]"
      by (simp add: upto_rec1)
    show ?thesis
      by (subst dayLoop_unfold) (simp add: True up "1.IH"[OF True refl refl refl])
  next
    case False
    then show ?thesis by (subst dayLoop_unfold) simp
  qed
qed

lemma toISODate_west: "- 1440 < tzOffset e \<Longrightarrow> tzOffset e \<le> 0 \<Longrightarrow> toISODate e d = d"
  unfolding toISODate_def by arith

lemma toISODate_east: "0 < tzOffset e \<Longrightarrow> tzOffset e \<le> 1440 \<Longrightarrow> toISODate e d = d - 1"
  unfolding toISODate_def by arith

lemma rangeAvailability_west_of_utc:
  assumes "- 1440 < tzOffset e" and "tzOffset e \<le> 0" and "truthy postcode"
  shows "\<exists>res. rangeAvailability e postcode (Some startDay) (Some endDay) = Inr res \<and>
           map da_date (ra_dates res) = [startDay..endDay] \<and>
           (\<forall>r \<in> set (ra_dates res). \<not> isWorkingDay (da_date r) \<longrightarrow> \<not> in_area r)"
  using assms
  by (auto simp: rangeAvailability_def Let_def dayLoop_map toISODate_west comp_def)

lemma rangeAvailability_ahead_of_utc:
  assumes "0 < tzOffset e" and "tzOffset e \<le> 1440" and "truthy postcode"
  shows "\<exists>res. rangeAvailability e postcode (Some startDay) (Some endDay) = Inr res \<and>
           map da_date (ra_dates res) = map (\<lambda>d. d - 1) [startDay..endDay]"
  using assms
  by (auto simp: rangeAvailability_def Let_def dayLoop_map toISODate_east comp_def)

section \<open>Normalising a postcode twice\<close>

lemma toUpperChar_idem: "toUpperChar (toUpperChar c) = toUpperChar c"
proof (cases "97 \<le> (of_char c :: nat) \<and> (of_char c :: nat) \<le> 122")
  case True
  define y :: nat where "y = of_char c - 32"
  from True have up: "toUpperChar c = char_of y"
    by (simp add: toUpperChar_def y_def)
  from True have "y < 256" and small: "\<not> 97 \<le> y"
    unfolding y_def by arith+
  then have "(of_char (char_of y) :: nat) = y" by simp
  with small have "toUpperChar (char_of y) = char_of y"
    by (simp add: toUpperChar_def)
  with up show ?thesis by simp
next
  case False
  then have "toUpperChar c = c" unfolding toUpperChar_def by (rule if_not_P)
  then show ?thesis by simp
qed

lemma toUpperCase_idem: "toUpperCase (toUpperCase s) = toUpperCase s"
  by (simp add: toUpperCase_def toUpperChar_idem)

lemma toUpperCase_filter:
  "toUpperCase (filter P (toUpperCase s)) = filter P (toUpperCase s)"
  by (induction s) (simp_all add: toUpperCase_def toUpperChar_idem)

lemma normalizePostcode_idem:
  "normalizePostcode (Some (normalizePostcode p)) = normalizePostcode p"
proof (cases "truthy p \<and> normalizePostcode p \<noteq> []")
  case False
  then show ?thesis by (auto simp: normalizePostcode_def)
next
  case True
  let ?n = "filter (\<lambda>c. \<not> isWhiteSpace c) (toUpperCase (trim (orEmpty p)))"
  from True have n: "normalizePostcode p = ?n" and ne: "?n \<noteq> []"
    by (auto simp: normalizePostcode_def)
  have "trim ?n = ?n" by (rule trim_no_space) simp
  moreover have "toUpperCase ?n = ?n" by (rule toUpperCase_filter)
  ultimately have "normalizePostcode (Some ?n) = ?n"
    using ne by (simp add: normalizePostcode_def)
  with n show ?thesis by simp
qed

section \<open>Times with white space around them\<close>

text \<open>
  A stored time followed by a space occupies its interval as the same time without the
  space does, and a requested time followed by a space is checked as the time it reads.
\<close>

lemma padded_times:
  "timeStringToMinutes (numberOf paddedEnv) (row_preferred_time row0900padded) = Num 540 \<and>
   findSlots paddedEnv (Some 19877) (Some ''AB1'') (Some [wash60]) =
     Inr [''10:30'', ''10:45'', ''11:00'', ''11:15'', ''11:30'', ''11:45'', ''12:00'', ''12:15'',
          ''12:30'', ''12:45'', ''13:00'', ''13:15'', ''13:30'', ''13:45'', ''14:00'', ''14:15'',
          ''14:30'', ''14:45'', ''15:00''] \<and>
   validateBooking paddedEnv (Some 19877) (Some ''AB1'') (Some [wash60]) (Some ''09:00'')
     = Inl TIME_TAKEN \<and>
   validateBooking scenarioEnv (Some 19877) (Some ''AB1'') (Some [wash60]) (Some ''09:00 '')
     = Inl TIME_TAKEN \<and>
   validateBooking scenarioEnv (Some 19877) (Some ''AB1'') (Some [wash60]) (Some ''10:30 '')
     = Inr ()"
proof -
  have a: "timeStringToMinutes (numberOf paddedEnv) (row_preferred_time row0900padded) = Num 540"
    by code_simp
  have b: "findSlots paddedEnv (Some 19877) (Some ''AB1'') (Some [wash60]) =
     Inr [''10:30'', ''10:45'', ''11:00'', ''11:15'', ''11:30'', ''11:45'', ''12:00'', ''12:15'',
          ''12:30'', ''12:45'', ''13:00'', ''13:15'', ''13:30'', ''13:45'', ''14:00'', ''14:15'',
          ''14:30'', ''14:45'', ''15:00'']"
    by code_simp
  have c: "validateBooking paddedEnv (Some 19877) (Some ''AB1'') (Some [wash60]) (Some ''09:00'')
     = Inl TIME_TAKEN"
    by code_simp
  have d: "validateBooking scenarioEnv (Some 19877) (Some ''AB1'') (Some [wash60]) (Some ''09:00 '')
     = Inl TIME_TAKEN"
    by code_simp
  have f: "validateBooking scenarioEnv (Some 19877) (Some ''AB1'') (Some [wash60]) (Some ''10:30 '')
     = Inr ()"
    by code_simp
  from a b c d f show ?thesis by blast
qed

section \<open>Slots and validation\<close>



text \<open>
  Claim C2. The scenario: working hours 08:30 to 16:30, buffer 30, step 15, one booking at
  09:00 for a 60-minute service at AB1 (occupying 09:00 to 10:30), a request for a 60-minute
  service at AB1, every travel time 0. The eight grid candidates from 08:30 to 10:15 all
  overlap the occupied interval and none of them is returned; 10:30 is returned, and is the
  first slot.
\<close>

theorem scenario_slots:
  "WORK_START = 8 * 60 + 30 \<and> WORK_END = 16 * 60 + 30 \<and>
   BUFFER_AFTER_JOB_MIN = 30 \<and> SLOT_STEP_MIN = 15 \<and>
   dayIntervals scenarioEnv 19877 =
     [\<lparr>iv_start = Num (9 * 60), iv_end = Num (10 * 60 + 30), iv_postcode = Some ''AB1''\<rparr>] \<and>
   requestedDurationOf (Some [wash60]) = 90 \<and>
   findSlots scenarioEnv (Some 19877) (Some ''AB1'') (Some [wash60]) =
     Inr [''10:30'', ''10:45'', ''11:00'', ''11:15'', ''11:30'', ''11:45'', ''12:00'', ''12:15'',
          ''12:30'', ''12:45'', ''13:00'', ''13:15'', ''13:30'', ''13:45'', ''14:00'', ''14:15'',
          ''14:30'', ''14:45'', ''15:00''] \<and>
   map minutesToTimeString [510, 525, 540, 555, 570, 585, 600, 615] =
     [''08:30'', ''08:45'', ''09:00'', ''09:15'', ''09:30'', ''09:45'', ''10:00'', ''10:15''] \<and>
   list_all (\<lambda>c. overlapsAny (Num c) (Num (c + 90)) (dayIntervals scenarioEnv 19877))
     [510, 525, 540, 555, 570, 585, 600, 615] \<and>
   list_all (\<lambda>s. s \<notin> set (projr (findSlots scenarioEnv (Some 19877) (Some ''AB1'') (Some [wash60]))))
     [''08:30'', ''08:45'', ''09:00'', ''09:15'', ''09:30'', ''09:45'', ''10:00'', ''10:15''] \<and>
   ''10:30'' \<in> set (projr (findSlots scenarioEnv (Some 19877) (Some ''AB1'') (Some [wash60])))"
proof -
  have grid: "WORK_START = 8 * 60 + 30 \<and> WORK_END = 16 * 60 + 30 \<and>
      BUFFER_AFTER_JOB_MIN = 30 \<and> SLOT_STEP_MIN = 15"
    by (simp add: WORK_START_def WORK_END_def BUFFER_AFTER_JOB_MIN_def SLOT_STEP_MIN_def)
  have ivs: "dayIntervals scenarioEnv 19877 =
      [\<lparr>iv_start = Num (9 * 60), iv_end = Num (10 * 60 + 30), iv_postcode = Some ''AB1''\<rparr>]"
    by code_simp
  have dur: "requestedDurationOf (Some [wash60]) = 90"
    by code_simp
  have slots: "findSlots scenarioEnv (Some 19877) (Some ''AB1'') (Some [wash60]) =
     Inr [''10:30'', ''10:45'', ''11:00'', ''11:15'', ''11:30'', ''11:45'', ''12:00'', ''12:15'',
          ''12:30'', ''12:45'', ''13:00'', ''13:15'', ''13:30'', ''13:45'', ''14:00'', ''14:15'',
          ''14:30'', ''14:45'', ''15:00'']"
    by code_simp
  have names: "map minutesToTimeString [510, 525, 540, 555, 570, 585, 600, 615] =
     [''08:30'', ''08:45'', ''09:00'', ''09:15'', ''09:30'', ''09:45'', ''10:00'', ''10:15'']"
    by code_simp
  have busy: "list_all (\<lambda>c. overlapsAny (Num c) (Num (c + 90)) (dayIntervals scenarioEnv 19877))
     [510, 525, 540, 555, 570, 585, 600, 615]"
    unfolding ivs by simp
  have absent: "list_all (\<lambda>s. s \<notin> set (projr (findSlots scenarioEnv (Some 19877) (Some ''AB1'') (Some [wash60]))))
     [''08:30'', ''08:45'', ''09:00'', ''09:15'', ''09:30'', ''09:45'', ''10:00'', ''10:15'']"
    unfolding slots by simp
  have present: "''10:30'' \<in> set (projr (findSlots scenarioEnv (Some 19877) (Some ''AB1'') (Some [wash60])))"
    unfolding slots by simp
  from grid ivs dur slots names busy absent present show ?thesis by blast
qed

section \<open>A failed travel-time query\<close>




section \<open>The area gate in the routes\<close>



section \<open>The working-day check\<close>

text \<open>
  The claim C5 as stated fails when a required field is absent: on Saturday 2024-06-08 (day
  19882) a request without a postcode fails with \<open>MISSING_FIELDS\<close>, since the presence
  check runs before the working-day check.
\<close>

theorem weekend_needs_fields_counterexample:
  "getDay 19882 = 6 \<and>
   validateBooking scenarioEnv (Some 19882) None (Some [wash60]) (Some ''10:00'') = Inl MISSING_FIELDS \<and>
   validateBooking scenarioEnv (Some 19882) None (Some [wash60]) (Some ''10:00'') \<noteq> Inl OUTSIDE_WORKING_DAYS"
  by (simp add: getDay_def validateBooking_def)

text \<open>
  Claim C5, amended. For a date that falls on a Saturday or a Sunday, \<open>validateBooking\<close>
  fails with \<open>OUTSIDE_WORKING_DAYS\<close> whenever the postcode and the time are present (not
  empty), whatever their values and whatever the services; when the postcode or the time is
  absent it fails with \<open>MISSING_FIELDS\<close>.
\<close>

theorem weekend_rejected_when_fields_present:
  assumes "getDay d = 0 \<or> getDay d = 6"
  shows "(truthy postcode \<and> truthy preferred_time \<longrightarrow>
            validateBooking e (Some d) postcode services preferred_time = Inl OUTSIDE_WORKING_DAYS) \<and>
         (\<not> (truthy postcode \<and> truthy preferred_time) \<longrightarrow>
            validateBooking e (Some d) postcode services preferred_time = Inl MISSING_FIELDS)"
proof -
  from assms have "\<not> isWorkingDay d" by (auto simp: isWorkingDay_def Let_def)
  then show ?thesis by (simp add: validateBooking_steps Let_def)
qed

theorem weekend_rejected_when_fields_present_witness:
  "(getDay 19882 = 0 \<or> getDay 19882 = 6) \<and> truthy (Some ''AB1'') \<and> truthy (Some ''10:00'') \<and>
   validateBooking scenarioEnv (Some 19882) (Some ''AB1'') (Some [wash60]) (Some ''10:00'')
     = Inl OUTSIDE_WORKING_DAYS \<and>
   validateBooking scenarioEnv (Some 19882) (Some ''AB1'') (Some [wash60]) None = Inl MISSING_FIELDS"
proof -
  have sat: "getDay 19882 = 0 \<or> getDay 19882 = 6" by (simp add: getDay_def)
  from weekend_rejected_when_fields_present[OF sat, of "Some ''AB1''" "Some ''10:00''" scenarioEnv "Some [wash60]"]
       weekend_rejected_when_fields_present[OF sat, of "Some ''AB1''" None scenarioEnv "Some [wash60]"]
       sat
  show ?thesis by simp
qed

section \<open>The buffer in the occupancy test\<close>



section \<open>Order of the interval bounds\<close>

text \<open>
  Claim C7 says that every interval has its start before its end, an inverted range being
  rejected or clamped before the overlap test. The extraction of calendar blocks keeps the
  time of day of an event's start and end and drops their dates, and nothing rejects or
  clamps the result. An event from 22:00 of the day before to 11:00 of the day becomes
  the block from minute 1320 to minute 660: the interval enters the list with its start
  after its end, the overlap test never finds it, \<open>validateBooking\<close> accepts a booking at
  09:00 inside the event, and the availability route offers the slots from 08:30 on. An
  all-day event of the same day is extracted as 00:00 to 23:59 and blocks the whole day.
\<close>

theorem overnight_event_interval_inverted:
  "getBusyIntervalsForDate nightEnv 19877 = Some [(22 * 60, 11 * 60)] \<and>
   buildIntervals nightEnv (bookingsOn nightEnv 19877) (calendarBusyOf nightEnv 19877) =
     Inr [\<lparr>iv_start = Num (22 * 60), iv_end = Num (11 * 60), iv_postcode = None\<rparr>] \<and>
   \<not> jsLt (Num (22 * 60)) (Num (11 * 60)) \<and>
   \<not> overlapsAny (Num (9 * 60)) (Num (10 * 60 + 30))
       [\<lparr>iv_start = Num (22 * 60), iv_end = Num (11 * 60), iv_postcode = None\<rparr>] \<and>
   validateBooking nightEnv (Some 19877) (Some ''AB1'') (Some [wash60]) (Some ''09:00'') = Inr () \<and>
   findSlots nightEnv (Some 19877) (Some ''AB1'') (Some [wash60]) =
     Inr [''08:30'', ''08:45'', ''09:00'', ''09:15'', ''09:30'', ''09:45'', ''10:00'', ''10:15'',
          ''10:30'', ''10:45'', ''11:00'', ''11:15'', ''11:30'', ''11:45'', ''12:00'', ''12:15'',
          ''12:30'', ''12:45'', ''13:00'', ''13:15'', ''13:30'', ''13:45'', ''14:00'', ''14:15'',
          ''14:30'', ''14:45'', ''15:00''] \<and>
   busyOfEvents [\<lparr>ev_start = Some (DateOnly 19877), ev_end = Some (DateOnly 19877)\<rparr>] =
     [(0, 23 * 60 + 59)]"
proof -
  have a: "getBusyIntervalsForDate nightEnv 19877 = Some [(22 * 60, 11 * 60)]"
    by code_simp
  have b: "buildIntervals nightEnv (bookingsOn nightEnv 19877) (calendarBusyOf nightEnv 19877) =
     Inr [\<lparr>iv_start = Num (22 * 60), iv_end = Num (11 * 60), iv_postcode = None\<rparr>]"
    by code_simp
  have c: "\<not> overlapsAny (Num (9 * 60)) (Num (10 * 60 + 30))
       [\<lparr>iv_start = Num (22 * 60), iv_end = Num (11 * 60), iv_postcode = None\<rparr>]"
    by simp
  have d: "validateBooking nightEnv (Some 19877) (Some ''AB1'') (Some [wash60]) (Some ''09:00'') = Inr ()"
    by code_simp
  have f: "findSlots nightEnv (Some 19877) (Some ''AB1'') (Some [wash60]) =
     Inr [''08:30'', ''08:45'', ''09:00'', ''09:15'', ''09:30'', ''09:45'', ''10:00'', ''10:15'',
          ''10:30'', ''10:45'', ''11:00'', ''11:15'', ''11:30'', ''11:45'', ''12:00'', ''12:15'',
          ''12:30'', ''12:45'', ''13:00'', ''13:15'', ''13:30'', ''13:45'', ''14:00'', ''14:15'',
          ''14:30'', ''14:45'', ''15:00'']"
    by code_simp
  have g: "busyOfEvents [\<lparr>ev_start = Some (DateOnly 19877), ev_end = Some (DateOnly 19877)\<rparr>] =
     [(0, 23 * 60 + 59)]"
    by simp
  from a b c d f g show ?thesis by simp
qed


theorem overnight_event_interval_inverted_witness:
  "getBusyIntervalsForDate nightEnv 19877 = Some [(1320, 660)] \<and>
   validateBooking nightEnv (Some 19877) (Some ''AB1'') (Some [wash60]) (Some ''09:00'') = Inr ()"
  using overnight_event_interval_inverted by simp

section \<open>The duration estimator\<close>

text \<open>
  Claim C8 says that the estimate of an absent or empty service list is 60 minutes, and that
  the estimator is total, never failing on a \<open>serviceId\<close> or a \<open>size\<close> it does not know.
  The first part holds, and so does the fallback for every string (an unknown service twice
  is 120 minutes). The second part fails on a value that is not a string: for an item whose
  \<open>serviceId\<close> is the number 123, for one whose \<open>size\<close> is a number, and for a \<open>null\<close>
  item the estimator throws a \<open>TypeError\<close>; \<open>validateBooking\<close> throws it on, and the
  availability route answers 500.
\<close>

theorem estimator_throws_on_non_string:
  "estimateBookingDurationMinutes None = Inr 60 \<and>
   estimateBookingDurationMinutes (Some []) = Inr 60 \<and>
   estimateBookingDurationMinutes (Some [waxItem]) = Inr 120 \<and>
   getServiceDurationMinutes numericIdItem = Inl TypeError \<and>
   getServiceDurationMinutes
     (Item \<lparr>serviceId = JStr ''full_detailed'', size_opt = JNum 123, quantity = None\<rparr>)
     = Inl TypeError \<and>
   getServiceDurationMinutes NullItem = Inl TypeError \<and>
   estimateBookingDurationMinutes (Some [wash60, numericIdItem]) = Inl TypeError \<and>
   validateBooking scenarioEnv (Some 19877) (Some ''AB1'') (Some [numericIdItem]) (Some ''10:30'')
     = Inl TypeError \<and>
   findSlots scenarioEnv (Some 19877) (Some ''AB1'') (Some [numericIdItem])
     = Inl FAILED_TO_CALCULATE_AVAILABILITY"
proof -
  have a: "estimateBookingDurationMinutes None = Inr 60"
    by (simp add: estimateBookingDurationMinutes_def)
  have b: "estimateBookingDurationMinutes (Some []) = Inr 60"
    by (simp add: estimateBookingDurationMinutes_def)
  have c: "estimateBookingDurationMinutes (Some [waxItem]) = Inr 120"
    by code_simp
  have d: "getServiceDurationMinutes numericIdItem = Inl TypeError"
    by code_simp
  have f: "getServiceDurationMinutes
     (Item \<lparr>serviceId = JStr ''full_detailed'', size_opt = JNum 123, quantity = None\<rparr>)
     = Inl TypeError"
    by code_simp
  have g: "getServiceDurationMinutes NullItem = Inl TypeError"
    by code_simp
  have h: "estimateBookingDurationMinutes (Some [wash60, numericIdItem]) = Inl TypeError"
    by code_simp
  have i: "validateBooking scenarioEnv (Some 19877) (Some ''AB1'') (Some [numericIdItem]) (Some ''10:30'')
     = Inl TypeError"
    by code_simp
  have j: "findSlots scenarioEnv (Some 19877) (Some ''AB1'') (Some [numericIdItem])
     = Inl FAILED_TO_CALCULATE_AVAILABILITY"
    by code_simp
  from a b c d f g h i j show ?thesis by blast
qed


theorem estimator_throws_on_non_string_witness:
  "estimateBookingDurationMinutes (Some [wash60, numericIdItem]) = Inl TypeError \<and>
   validateBooking scenarioEnv (Some 19877) (Some ''AB1'') (Some [numericIdItem]) (Some ''10:30'')
     = Inl TypeError"
  using estimator_throws_on_non_string by blast

section \<open>Date-range availability\<close>

text \<open>
  Claim C9 says that the date-availability route returns one entry per calendar day from the
  start date to the end date, both included, and that every Saturday and Sunday of the range
  is out of area. The route builds each day at local midnight and names it by the UTC date
  of that instant, so the claim holds on a server whose local time is UTC or behind it
  (\<open>rangeAvailability_west_of_utc\<close>) and fails on a server ahead of UTC, where every
  entry is dated one day early (\<open>rangeAvailability_ahead_of_utc\<close>). Evaluated one
  hour ahead of UTC: for the range of the single Monday 2024-06-03 (day 19877) the answer
  holds one entry, for Sunday 2024-06-02; for the week from that Monday to Sunday 2024-06-09
  (day 19883) the answer runs from 2024-06-02 to 2024-06-08 and has no entry for the Sunday
  that ends the range.
\<close>

theorem date_range_shifted_ahead_of_utc:
  "tzOffset summerTimeEnv = 60 \<and>
   getDay 19876 = 0 \<and> getDay 19877 = 1 \<and> getDay 19883 = 0 \<and>
   rangeAvailability summerTimeEnv (Some ''AB1'') (Some 19877) (Some 19877) =
     Inr \<lparr>ra_postcode = ''AB1'', ra_start_date = 19877, ra_end_date = 19877,
          ra_dates = [\<lparr>da_date = 19876, in_area = False\<rparr>]\<rparr> \<and>
   rangeAvailability summerTimeEnv (Some ''AB1'') (Some 19877) (Some 19883) =
     Inr \<lparr>ra_postcode = ''AB1'', ra_start_date = 19877, ra_end_date = 19883,
          ra_dates = [\<lparr>da_date = 19876, in_area = False\<rparr>,
                      \<lparr>da_date = 19877, in_area = True\<rparr>,
                      \<lparr>da_date = 19878, in_area = True\<rparr>,
                      \<lparr>da_date = 19879, in_area = True\<rparr>,
                      \<lparr>da_date = 19880, in_area = True\<rparr>,
                      \<lparr>da_date = 19881, in_area = True\<rparr>,
                      \<lparr>da_date = 19882, in_area = False\<rparr>]\<rparr>"
proof -
  have a: "tzOffset summerTimeEnv = 60" by (simp add: summerTimeEnv_def)
  have b: "getDay 19876 = 0 \<and> getDay 19877 = 1 \<and> getDay 19883 = 0" by (simp add: getDay_def)
  have c: "rangeAvailability summerTimeEnv (Some ''AB1'') (Some 19877) (Some 19877) =
     Inr \<lparr>ra_postcode = ''AB1'', ra_start_date = 19877, ra_end_date = 19877,
          ra_dates = [\<lparr>da_date = 19876, in_area = False\<rparr>]\<rparr>"
    by code_simp
  have d: "rangeAvailability summerTimeEnv (Some ''AB1'') (Some 19877) (Some 19883) =
     Inr \<lparr>ra_postcode = ''AB1'', ra_start_date = 19877, ra_end_date = 19883,
          ra_dates = [\<lparr>da_date = 19876, in_area = False\<rparr>,
                      \<lparr>da_date = 19877, in_area = True\<rparr>,
                      \<lparr>da_date = 19878, in_area = True\<rparr>,
                      \<lparr>da_date = 19879, in_area = True\<rparr>,
                      \<lparr>da_date = 19880, in_area = True\<rparr>,
                      \<lparr>da_date = 19881, in_area = True\<rparr>,
                      \<lparr>da_date = 19882, in_area = False\<rparr>]\<rparr>"
    by code_simp
  from a b c d show ?thesis by blast
qed

section \<open>Postcode normalisation\<close>

text \<open>
  The claim C10 as stated fails for a postcode made of white space only. The postcode of one
  space is accepted by the date-availability route, which normalises it to the empty string
  and finds every day with a booking out of area; the normalised postcode itself, the empty
  string, is refused with \<open>MISSING_FIELDS\<close>.
\<close>

theorem blank_postcode_counterexample:
  "normalizePostcode (Some '' '') = [] \<and>
   rangeAvailability scenarioEnv (Some '' '') (Some 19877) (Some 19877) =
     Inr \<lparr>ra_postcode = [], ra_start_date = 19877, ra_end_date = 19877,
          ra_dates = [\<lparr>da_date = 19877, in_area = False\<rparr>]\<rparr> \<and>
   rangeAvailability scenarioEnv (Some (normalizePostcode (Some '' ''))) (Some 19877) (Some 19877) =
     Inl MISSING_FIELDS"
proof -
  have a: "normalizePostcode (Some '' '') = []" by code_simp
  have b: "rangeAvailability scenarioEnv (Some '' '') (Some 19877) (Some 19877) =
     Inr \<lparr>ra_postcode = [], ra_start_date = 19877, ra_end_date = 19877,
          ra_dates = [\<lparr>da_date = 19877, in_area = False\<rparr>]\<rparr>"
    by code_simp
  have c: "rangeAvailability scenarioEnv (Some (normalizePostcode (Some '' ''))) (Some 19877) (Some 19877) =
     Inl MISSING_FIELDS"
    by code_simp
  from a b c show ?thesis by blast
qed

text \<open>
  Claim C10, amended. The date-availability route normalises the candidate postcode (trim,
  upper case, all white space removed) and runs its day loop, hence every travel-time query,
  with the normalised postcode; so for every postcode whose normalised form is not empty,
  and every date range, its answer equals its answer for the normalised postcode.
  \<open>validateBooking\<close> and the availability route pass the postcode on as it is given, and
  their answers are not invariant: with a provider that knows AB1 in capitals only, the
  postcode ab1 gets no slot and \<open>OUT_OF_AREA_FOR_DAY\<close>, while AB1 gets nineteen slots and is
  accepted at 10:30.
\<close>

theorem range_normalizes_routes_do_not:
  "(normalizePostcode (Some p) \<noteq> [] \<longrightarrow>
      rangeAvailability e (Some p) start_date end_date =
      rangeAvailability e (Some (normalizePostcode (Some p))) start_date end_date) \<and>
   (rangeAvailability e (Some p) (Some startDay) (Some endDay) = Inr res \<longrightarrow>
      ra_postcode res = normalizePostcode (Some p) \<and>
      ra_dates res =
        dayLoop e (normalizePostcode (Some p)) (bookingsBetween e startDay endDay) endDay startDay) \<and>
   normalizePostcode (Some ''ab1'') = ''AB1'' \<and>
   findSlots capitalsEnv (Some 19877) (Some ''ab1'') (Some [wash60]) = Inr [] \<and>
   findSlots capitalsEnv (Some 19877) (Some ''AB1'') (Some [wash60]) =
     Inr [''10:30'', ''10:45'', ''11:00'', ''11:15'', ''11:30'', ''11:45'', ''12:00'', ''12:15'',
          ''12:30'', ''12:45'', ''13:00'', ''13:15'', ''13:30'', ''13:45'', ''14:00'', ''14:15'',
          ''14:30'', ''14:45'', ''15:00''] \<and>
   validateBooking capitalsEnv (Some 19877) (Some ''ab1'') (Some [wash60]) (Some ''10:30'')
     = Inl OUT_OF_AREA_FOR_DAY \<and>
   validateBooking capitalsEnv (Some 19877) (Some ''AB1'') (Some [wash60]) (Some ''10:30'') = Inr ()"
proof -
  have inv: "normalizePostcode (Some p) \<noteq> [] \<longrightarrow>
      rangeAvailability e (Some p) start_date end_date =
      rangeAvailability e (Some (normalizePostcode (Some p))) start_date end_date"
  proof
    assume ne: "normalizePostcode (Some p) \<noteq> []"
    then have p: "truthy (Some p)" by (auto simp: normalizePostcode_def)
    from ne have n: "truthy (Some (normalizePostcode (Some p)))" by simp
    show "rangeAvailability e (Some p) start_date end_date =
      rangeAvailability e (Some (normalizePostcode (Some p))) start_date end_date"
      unfolding rangeAvailability_def Let_def normalizePostcode_idem
      using p n by (simp split: option.splits)
  qed
  have echo: "rangeAvailability e (Some p) (Some startDay) (Some endDay) = Inr res \<longrightarrow>
      ra_postcode res = normalizePostcode (Some p) \<and>
      ra_dates res =
        dayLoop e (normalizePostcode (Some p)) (bookingsBetween e startDay endDay) endDay startDay"
    by (auto simp: rangeAvailability_def Let_def split: if_splits)
  have n: "normalizePostcode (Some ''ab1'') = ''AB1''" by code_simp
  have f1: "findSlots capitalsEnv (Some 19877) (Some ''ab1'') (Some [wash60]) = Inr []"
    by code_simp
  have f2: "findSlots capitalsEnv (Some 19877) (Some ''AB1'') (Some [wash60]) =
     Inr [''10:30'', ''10:45'', ''11:00'', ''11:15'', ''11:30'', ''11:45'', ''12:00'', ''12:15'',
          ''12:30'', ''12:45'', ''13:00'', ''13:15'', ''13:30'', ''13:45'', ''14:00'', ''14:15'',
          ''14:30'', ''14:45'', ''15:00'']"
    by code_simp
  have v1: "validateBooking capitalsEnv (Some 19877) (Some ''ab1'') (Some [wash60]) (Some ''10:30'')
     = Inl OUT_OF_AREA_FOR_DAY"
    by code_simp
  have v2: "validateBooking capitalsEnv (Some 19877) (Some ''AB1'') (Some [wash60]) (Some ''10:30'') = Inr ()"
    by code_simp
  from inv echo n f1 f2 v1 v2 show ?thesis by blast
qed

theorem range_normalizes_routes_do_not_witness:
  "normalizePostcode (Some '' ab 1 '') = ''AB1'' \<and>
   rangeAvailability capitalsEnv (Some '' ab 1 '') (Some 19877) (Some 19878) =
   rangeAvailability capitalsEnv (Some ''AB1'') (Some 19877) (Some 19878) \<and>
   rangeAvailability capitalsEnv (Some ''AB1'') (Some 19877) (Some 19878) =
     Inr \<lparr>ra_postcode = ''AB1'', ra_start_date = 19877, ra_end_date = 19878,
          ra_dates = [\<lparr>da_date = 19877, in_area = True\<rparr>, \<lparr>da_date = 19878, in_area = True\<rparr>]\<rparr>"
proof -
  have n: "normalizePostcode (Some '' ab 1 '') = ''AB1''" by code_simp
  have r: "rangeAvailability capitalsEnv (Some ''AB1'') (Some 19877) (Some 19878) =
     Inr \<lparr>ra_postcode = ''AB1'', ra_start_date = 19877, ra_end_date = 19878,
          ra_dates = [\<lparr>da_date = 19877, in_area = True\<rparr>, \<lparr>da_date = 19878, in_area = True\<rparr>]\<rparr>"
    by code_simp
  from range_normalizes_routes_do_not[of "'' ab 1 ''" capitalsEnv "Some 19877" "Some 19878",
        THEN conjunct1] n r
  show ?thesis by simp
qed

end
